theory Spec2Isabelle
  imports
    Main
    "HOL-Library.Word"
    "HOL-Library.Signed_Division"
    "HOL-Library.AList"
    "HOL-Library.List_Lexorder"
    "HOL-Library.Char_ord"
begin

section \<open>Machine integers, durations and errors\<close>

text \<open>
  Go's \<^verbatim>\<open>time.Duration\<close> is an \<^verbatim>\<open>int64\<close> count of nanoseconds and, on the 64-bit
  platforms the tool is built for, \<^verbatim>\<open>int\<close> is 64 bits wide as well. Both are modelled as
  64-bit words read in two's complement: \<open>+\<close> and \<open>-\<close> wrap, comparisons are the signed
  ones (\<open>word_sless\<close>, \<open>word_sle\<close>), and \<^verbatim>\<open>/\<close> truncates towards zero.
\<close>

type_synonym int64 = "64 word"
type_synonym duration = "64 word"

definition MaxInt64 :: int64 where
  "MaxInt64 = 9223372036854775807"

definition DefaultCounter :: int64 where
  "DefaultCounter = 4"

definition DefaultInterval :: duration where
  "DefaultInterval = 1000000000"

definition DefaultTimeout :: duration where
  "DefaultTimeout = 5000000000"

text \<open>Go's integer division on \<^verbatim>\<open>int64\<close>: the quotient is truncated towards zero and
  wraps to 64 bits. The callers below guard against a zero divisor, where Go panics.\<close>

definition go_div :: "int64 \<Rightarrow> int64 \<Rightarrow> int64" where
  "go_div a b = word_of_int (sint a sdiv sint b)"

text \<open>\<^verbatim>\<open>strconv.Itoa\<close> and the \<^verbatim>\<open>%d\<close> / template rendering of an integer: decimal
  digits, with a leading minus sign for a negative number.\<close>

fun digits :: "nat \<Rightarrow> string" where
  "digits n = (if n < 10 then [char_of (48 + n)] else digits (n div 10) @ [char_of (48 + n mod 10)])"

declare digits.simps [simp del]

definition Itoa :: "int \<Rightarrow> string" where
  "Itoa i = (if i < 0 then CHR ''-'' # digits (nat (- i)) else digits (nat i))"

text \<open>
  Error values. \<open>Canceled\<close> and \<open>DeadlineExceeded\<close> are \<^verbatim>\<open>context.Canceled\<close> and
  \<^verbatim>\<open>context.DeadlineExceeded\<close>; \<open>ErrorString\<close> is any other leaf error with its message;
  \<open>Errorf prefix e\<close> is \<^verbatim>\<open>fmt.Errorf("prefix: %w", e)\<close>; \<open>OpError op net addr e\<close> is a
  \<^verbatim>\<open>*net.OpError\<close> with its optional remote address and the error it wraps.
\<close>

datatype go_error =
    Canceled
  | DeadlineExceeded
  | ErrorString string
  | Errorf string go_error
  | OpError string string "string option" go_error

text \<open>\<^verbatim>\<open>errors.Is(err, context.Canceled)\<close>: walks the \<^verbatim>\<open>Unwrap\<close> chain.\<close>

fun is_Canceled :: "go_error \<Rightarrow> bool" where
  "is_Canceled Canceled = True"
| "is_Canceled DeadlineExceeded = False"
| "is_Canceled (ErrorString s) = False"
| "is_Canceled (Errorf s e) = is_Canceled e"
| "is_Canceled (OpError op n a e) = is_Canceled e"

text \<open>The \<^verbatim>\<open>Error()\<close> text of an error value.\<close>

fun Error_text :: "go_error \<Rightarrow> string" where
  "Error_text Canceled = ''context canceled''"
| "Error_text DeadlineExceeded = ''context deadline exceeded''"
| "Error_text (ErrorString s) = s"
| "Error_text (Errorf s e) = s @ '': '' @ Error_text e"
| "Error_text (OpError op n a e) =
     op @ (if n = [] then [] else '' '' @ n)
        @ (case a of None \<Rightarrow> [] | Some ad \<Rightarrow> '' '' @ ad) @ '': '' @ Error_text e"

section \<open>The result of one attempt (pinger.Stats)\<close>

text \<open>
  A value stored in \<^verbatim>\<open>Stats.Meta\<close> is a \<^verbatim>\<open>fmt.Stringer\<close>: the repository stores
  \<^verbatim>\<open>http.Int\<close> values and \<^verbatim>\<open>pinger.StringerFunc\<close> closures (modelled by the string
  the closure returns); a map entry may also hold the nil interface.
\<close>

datatype stringer = NilStringer | Int_http int | StringerFunc string

fun stringer_String :: "stringer \<Rightarrow> string" where
  "stringer_String (Int_http i) = Itoa i"
| "stringer_String (StringerFunc s) = s"
| "stringer_String NilStringer = ''<nil>''"

text \<open>The certificate summary of package meta. A \<^verbatim>\<open>time.Time\<close> of a certificate is
  kept as its Unix time in seconds.\<close>

record Meta =
  Version :: int
  DNSNames :: "string list"
  ServerName :: string
  NotBefore :: int
  NotAfter :: int

text \<open>The trace of an HTTP attempt (package http, \<^verbatim>\<open>Trace\<close>). A time stamp is a
  nanosecond reading of the clock, \<open>None\<close> for the zero \<^verbatim>\<open>time.Time\<close>. The field
  \<^verbatim>\<open>tlsState\<close> is written once and never read; it is left out.\<close>

record Trace =
  tr_DNSDuration :: duration
  connectStart :: "int64 option"
  ConnectDuration :: duration
  tlsStart :: "int64 option"
  tr_tls :: bool
  TLSDuration :: duration
  WroteRequestDuration :: duration
  WaitResponseDuration :: duration
  BodyDuration :: duration
  address :: string

text \<open>\<^verbatim>\<open>Stats.Extra\<close> is a \<^verbatim>\<open>fmt.Stringer\<close> too: the certificate summary, a text buffer
  or the trace of the attempt.\<close>

datatype extra = ExtraMeta Meta | ExtraBuffer string | ExtraTrace Trace

text \<open>
  \<^verbatim>\<open>Stats.Meta\<close> is a Go map. It is modelled as an association list with distinct keys;
  the order of the list is the (unspecified) order in which \<^verbatim>\<open>range\<close> visits the map.
\<close>

record Stats =
  Connected :: bool
  Error :: "go_error option"
  Duration :: duration
  DNSDuration :: duration
  Address :: string
  Meta :: "(string \<times> stringer) list"
  Extra :: "extra option"

definition Stats_zero :: Stats where
  "Stats_zero = \<lparr>Connected = False, Error = None, Duration = 0, DNSDuration = 0,
     Address = [], Meta = [], Extra = None\<rparr>"

text \<open>Joining rendered pairs with single spaces, as the loop over the sorted keys does
  (\<^verbatim>\<open>if i > 0 { builder.WriteByte(' ') }\<close>).\<close>

fun join_space :: "string list \<Rightarrow> string" where
  "join_space [] = []"
| "join_space [x] = x"
| "join_space (x # y # zs) = x @ '' '' @ join_space (y # zs)"

text \<open>\<^verbatim>\<open>Stats.FormatMeta\<close>: empty for an empty map; otherwise the keys are collected,
  sorted with \<^verbatim>\<open>sort.Strings\<close> (bytewise lexicographic order), and each is written as
  \<^verbatim>\<open>key=value\<close>, a missing or nil value as \<^verbatim>\<open><nil>\<close>.\<close>

definition FormatMeta_pair :: "(string \<times> stringer) list \<Rightarrow> string \<Rightarrow> string" where
  "FormatMeta_pair m key =
     key @ ''='' @ (case map_of m key of
                     Some val \<Rightarrow> (if val \<noteq> NilStringer then stringer_String val else ''<nil>'')
                   | None \<Rightarrow> ''<nil>'')"

definition FormatMeta :: "Stats \<Rightarrow> string" where
  "FormatMeta s =
     (if length (Meta s) = 0 then []
      else let keys = sort (map fst (Meta s))
           in join_space (map (FormatMeta_pair (Meta s)) keys))"

section \<open>The scheduler and the running statistics (pinger.Pinger)\<close>

text \<open>The fields of \<^verbatim>\<open>Pinger\<close> that the statistics and the summary use. \<open>url\<close> is the
  text of the target URL, \<open>stopped\<close> tells whether \<^verbatim>\<open>stopC\<close> is closed.\<close>

record Pinger =
  url :: string
  stopped :: bool
  interval :: duration
  counter :: int64
  timeout :: duration
  minDuration :: duration
  maxDuration :: duration
  totalDuration :: duration
  total :: int64
  failedTotal :: int64

text \<open>\<^verbatim>\<open>NewPinger\<close>: non-positive interval and timeout fall back to the defaults; the
  statistics start at Go's zero values.\<close>

definition NewPinger :: "string \<Rightarrow> duration \<Rightarrow> int64 \<Rightarrow> duration \<Rightarrow> Pinger" where
  "NewPinger u iv c tmo =
     \<lparr>url = u, stopped = False,
      interval = (if iv \<le>s 0 then DefaultInterval else iv),
      counter = c,
      timeout = (if tmo \<le>s 0 then DefaultTimeout else tmo),
      minDuration = 0, maxDuration = 0, totalDuration = 0, total = 0, failedTotal = 0\<rparr>"

definition Stop :: "Pinger \<Rightarrow> Pinger" where
  "Stop p = p\<lparr>stopped := True\<rparr>"

text \<open>\<^verbatim>\<open>logStats\<close>, the statistics update (the rest of the function formats the
  per-attempt line and writes it to the output; it touches no counter).\<close>

definition logStats :: "Pinger \<Rightarrow> Stats \<Rightarrow> Pinger" where
  "logStats p stats =
     (let p1 = (if Connected stats
                then (let pa = (if Duration stats <s minDuration p
                                then p\<lparr>minDuration := Duration stats\<rparr> else p);
                          pb = (if maxDuration pa <s Duration stats
                                then pa\<lparr>maxDuration := Duration stats\<rparr> else pa)
                      in pb\<lparr>totalDuration := totalDuration pb + Duration stats\<rparr>)
                else p)
      in (case Error stats of
            Some e \<Rightarrow> (if \<not> is_Canceled e then p1\<lparr>failedTotal := failedTotal p1 + 1\<rparr> else p1)
          | None \<Rightarrow> p1))"

text \<open>One turn of the loop of \<^verbatim>\<open>Pinger.Ping\<close> after the probe returned \<open>stats\<close>:
  \<^verbatim>\<open>p.logStats(stats); p.total++\<close>.\<close>

definition attempt_done :: "Pinger \<Rightarrow> Stats \<Rightarrow> Pinger" where
  "attempt_done p stats = (let p1 = logStats p stats in p1\<lparr>total := total p1 + 1\<rparr>)"

text \<open>
  The loop of \<^verbatim>\<open>Pinger.Ping\<close>. The list holds the results that the successive attempts
  return until the run is stopped from outside; when it is used up the context has been
  cancelled and the loop returns. After each attempt the counter limit is checked.
\<close>

fun Ping_loop :: "Pinger \<Rightarrow> Stats list \<Rightarrow> Pinger" where
  "Ping_loop p [] = Stop p"
| "Ping_loop p (stats # rest) =
     (let p2 = attempt_done p stats
      in if 0 <s counter p2 \<and> counter p2 \<le>s total p2 then Stop p2 else Ping_loop p2 rest)"

definition Ping :: "Pinger \<Rightarrow> Stats list \<Rightarrow> Pinger" where
  "Ping p results = Ping_loop (p\<lparr>minDuration := MaxInt64\<rparr>) results"

text \<open>The state of the loop once the attempts that returned \<open>rs\<close> have been processed
  in turn, and the results that count as failures.\<close>

definition attempts :: "Pinger \<Rightarrow> Stats list \<Rightarrow> Pinger" where
  "attempts p rs = foldl attempt_done p rs"

definition counts_failed :: "Stats \<Rightarrow> bool" where
  "counts_failed s = (case Error s of None \<Rightarrow> False | Some e \<Rightarrow> \<not> is_Canceled e)"

text \<open>The data handed to the summary template by \<^verbatim>\<open>Summarize\<close>.\<close>

record summaryData =
  sd_URL :: string
  sd_Total :: int64
  sd_SuccessTotal :: int64
  sd_FailedTotal :: int64
  sd_MinDuration :: duration
  sd_MaxDuration :: duration
  sd_AvgDuration :: duration

definition Summarize_data :: "Pinger \<Rightarrow> summaryData" where
  "Summarize_data p =
     (let d = \<lparr>sd_URL = url p, sd_Total = total p, sd_SuccessTotal = total p - failedTotal p,
               sd_FailedTotal = failedTotal p, sd_MinDuration = minDuration p,
               sd_MaxDuration = maxDuration p, sd_AvgDuration = 0\<rparr>
      in if 0 <s total p
         then d\<lparr>sd_AvgDuration := go_div (totalDuration p) (total p)\<rparr>
         else d\<lparr>sd_MinDuration := 0, sd_MaxDuration := 0\<rparr>)"

text \<open>The template of \<^verbatim>\<open>Summarize\<close>; \<open>durString\<close> is \<^verbatim>\<open>time.Duration.String\<close> of the
  standard library. \<^verbatim>\<open>{{if .Total}}\<close> holds when the integer is not zero.\<close>

definition summaryTpl :: "(duration \<Rightarrow> string) \<Rightarrow> summaryData \<Rightarrow> string" where
  "summaryTpl durString d =
     [CHR 0x0A] @ ''Ping statistics '' @ sd_URL d @ [CHR 0x0A]
     @ ''    '' @ Itoa (sint (sd_Total d)) @ '' probes sent.'' @ [CHR 0x0A]
     @ ''    '' @ Itoa (sint (sd_SuccessTotal d)) @ '' successful, ''
     @ Itoa (sint (sd_FailedTotal d)) @ '' failed.'' @ [CHR 0x0A]
     @ ''Approximate trip times:''
     @ (if sd_Total d \<noteq> 0
        then [CHR 0x0A] @ ''    Minimum = '' @ durString (sd_MinDuration d)
             @ '', Maximum = '' @ durString (sd_MaxDuration d)
             @ '', Average = '' @ durString (sd_AvgDuration d)
        else [CHR 0x0A] @ ''    No probes completed successfully.'')"

definition Summarize :: "(duration \<Rightarrow> string) \<Rightarrow> Pinger \<Rightarrow> string" where
  "Summarize durString p = summaryTpl durString (Summarize_data p)"

text \<open>\<^verbatim>\<open>pinger.Result\<close> and its \<^verbatim>\<open>Avg\<close> method, the sibling aggregate of the package.\<close>

record Result =
  Counter :: int64
  SuccessCounter :: int64
  MinDuration :: duration
  MaxDuration :: duration
  TotalDuration :: duration

definition Avg :: "Result \<Rightarrow> duration" where
  "Avg result = (if SuccessCounter result = 0 then 0
                 else go_div (TotalDuration result) (SuccessCounter result))"


section \<open>The probes\<close>

text \<open>\<^verbatim>\<open>pinger.Option\<close>; the resolver and the proxy are plumbing and are left out.\<close>

record PingOption =
  Timeout :: duration
  UA :: string

text \<open>A \<^verbatim>\<open>context.Context\<close>, as the chain of constructors that built it.\<close>

datatype Context =
    Background
  | WithCancel Context
  | WithTimeout Context duration
  | WithClientTrace Context

text \<open>The calls into the network that the TCP probe makes, each with the arguments the
  source passes.\<close>

datatype net_call =
    tls_DialWithDialer string string
  | DialContext Context string string

fun call_context :: "net_call \<Rightarrow> Context option" where
  "call_context (tls_DialWithDialer network addr) = None"
| "call_context (DialContext ctx network addr) = Some ctx"

subsection \<open>TCP and TCP with TLS (package tcp)\<close>

record Certificate =
  cert_DNSNames :: "string list"
  cert_NotBefore :: int
  cert_NotAfter :: int

text \<open>
  The \<^verbatim>\<open>tls.ConnectionState\<close> of a connection that \<^verbatim>\<open>tls.DialWithDialer\<close> returned.
  A client handshake of \<^verbatim>\<open>crypto/tls\<close> completes only with the certificate chain of the
  server, so \<^verbatim>\<open>PeerCertificates\<close> is the leaf certificate followed by the rest of the
  chain.
\<close>

record ConnectionState =
  leaf_Certificate :: Certificate
  chain_Certificates :: "Certificate list"
  cs_ServerName :: string
  cs_Version :: "16 word"

definition PeerCertificates :: "ConnectionState \<Rightarrow> Certificate list" where
  "PeerCertificates cs = leaf_Certificate cs # chain_Certificates cs"

record tls_Conn =
  RemoteAddr :: string
  State :: ConnectionState

definition VersionTLS10 :: "16 word" where
  "VersionTLS10 = 0x0301"

record tcp_Ping =
  tcp_option :: PingOption
  tcp_host :: string
  tcp_port :: int
  tcp_tls :: bool

text \<open>
  What the network answers during one TCP attempt: the outcome of
  \<^verbatim>\<open>tls.DialWithDialer\<close>, the outcome of \<^verbatim>\<open>dialer.DialContext\<close> (the remote address of
  the connection, or the error), the duration that the \<^verbatim>\<open>DNSDone\<close> callback stores if the
  dial resolves a name, and \<^verbatim>\<open>time.Since(start)\<close> after the dial.
\<close>

record tcp_env =
  tls_dial_result :: "go_error + tls_Conn"
  dial_result :: "go_error + string"
  dial_DNSDone :: "duration option"
  since_start :: duration

definition tcp_DialContext :: "tcp_env \<Rightarrow> Stats \<Rightarrow> (go_error + string) \<times> Stats" where
  "tcp_DialContext env stats =
     (dial_result env,
      (case dial_DNSDone env of Some d \<Rightarrow> stats\<lparr>DNSDuration := d\<rparr> | None \<Rightarrow> stats))"

text \<open>\<^verbatim>\<open>(*Ping).Ping\<close> of package tcp. The result is the \<^verbatim>\<open>Stats\<close> and the network calls
  made, in order.\<close>

definition tcp_Ping :: "tcp_Ping \<Rightarrow> Context \<Rightarrow> tcp_env \<Rightarrow> Stats \<times> net_call list" where
  "tcp_Ping p ctx0 env =
     (let timeout = (if 0 <s Timeout (tcp_option p) then Timeout (tcp_option p) else DefaultTimeout);
          ctx = WithClientTrace (WithTimeout ctx0 timeout);
          addr = tcp_host p @ '':'' @ Itoa (tcp_port p);
          (conn, tlsConn, tlsErr, stats, calls) =
            (if tcp_tls p
             then (case tls_dial_result env of
                     Inr tc \<Rightarrow> (Inr (RemoteAddr tc), Some tc, None, Stats_zero,
                               [tls_DialWithDialer ''tcp'' addr])
                   | Inl e \<Rightarrow>
                       (let (c, st) = tcp_DialContext env Stats_zero
                        in (c, None, Some e, st,
                            [tls_DialWithDialer ''tcp'' addr, DialContext ctx ''tcp'' addr])))
             else (let (c, st) = tcp_DialContext env Stats_zero
                   in (c, None, None, st, [DialContext ctx ''tcp'' addr])));
          stats1 = stats\<lparr>Duration := since_start env\<rparr>
      in (case conn of
            Inl err \<Rightarrow>
              (stats1\<lparr>Error := Some err,
                      Address := (case err of OpError op n (Some a) e \<Rightarrow> a | _ \<Rightarrow> Address stats1)\<rparr>,
               calls)
          | Inr remote \<Rightarrow>
              (let stats2 = stats1\<lparr>Connected := True, Address := remote\<rparr>
               in (case tlsConn of
                     Some tc \<Rightarrow>
                       (case PeerCertificates (State tc) of
                          cert # others \<Rightarrow>
                            (stats2\<lparr>Extra := Some (ExtraMeta
                               \<lparr>Version = uint (cs_Version (State tc) - VersionTLS10),
                                DNSNames = cert_DNSNames cert,
                                ServerName = cs_ServerName (State tc),
                                NotBefore = cert_NotBefore cert,
                                NotAfter = cert_NotAfter cert\<rparr>)\<rparr>, calls)
                        | [] \<Rightarrow>
                            (if tcp_tls p
                             then stats2\<lparr>Extra := Some (ExtraBuffer (''TLS handshake failed, ''
                                    @ (case tlsErr of Some e \<Rightarrow> Error_text e
                                       | None \<Rightarrow> ''%!s(<nil>)'')))\<rparr>
                             else stats2, calls))
                   | None \<Rightarrow>
                       (if tcp_tls p
                        then stats2\<lparr>Extra := Some (ExtraBuffer (''TLS handshake failed, ''
                               @ (case tlsErr of Some e \<Rightarrow> Error_text e
                                  | None \<Rightarrow> ''%!s(<nil>)'')))\<rparr>
                        else stats2, calls)))))"

subsection \<open>UDP (package udp)\<close>

record udp_Ping =
  udp_option :: "PingOption option"
  udp_host :: string
  udp_port :: int

text \<open>
  What the network answers during one UDP attempt: \<^verbatim>\<open>net.ParseIP\<close> on the host (the
  printed address when the host is a literal), the outcome of \<^verbatim>\<open>LookupIP\<close> (the printed
  addresses), the outcomes of dial and write, the datagram and error of \<^verbatim>\<open>conn.Read\<close>,
  and the clock: \<^verbatim>\<open>time.Since(startDNS)\<close> after the lookup and \<^verbatim>\<open>time.Since(startTotal)\<close>
  where the attempt stops the total timer.
\<close>

record udp_env =
  ParseIP :: "string option"
  LookupIP :: "go_error + string list"
  since_startDNS :: duration
  udp_dial :: "go_error option"
  udp_write :: "go_error option"
  udp_read :: "string \<times> go_error option"
  since_startTotal :: duration

text \<open>\<^verbatim>\<open>net.JoinHostPort\<close>: a host that contains a colon is put in brackets.\<close>

definition JoinHostPort :: "string \<Rightarrow> string \<Rightarrow> string" where
  "JoinHostPort h prt = (if CHR '':'' \<in> set h then ''['' @ h @ '']:'' @ prt else h @ '':'' @ prt)"

definition udp_exchange :: "udp_Ping \<Rightarrow> udp_env \<Rightarrow> Stats \<Rightarrow> string \<Rightarrow> Stats" where
  "udp_exchange p env stats0 resolvedIP =
     (let targetAddr = JoinHostPort resolvedIP (Itoa (udp_port p));
          stats = stats0\<lparr>Address := targetAddr\<rparr>
      in (case udp_dial env of
            Some dialErr \<Rightarrow>
              stats\<lparr>Error := Some (Errorf ''dial failed'' dialErr), Duration := since_startTotal env\<rparr>
          | None \<Rightarrow>
              (case udp_write env of
                 Some writeErr \<Rightarrow>
                   stats\<lparr>Error := Some (Errorf ''write failed'' writeErr),
                         Duration := since_startTotal env\<rparr>
               | None \<Rightarrow>
                   (let stats1 = stats\<lparr>Duration := since_startTotal env\<rparr>;
                        stats2 = (case snd (udp_read env) of
                                    None \<Rightarrow> stats1\<lparr>Connected := True, Error := None\<rparr>
                                  | Some readErr \<Rightarrow>
                                      stats1\<lparr>Connected := False,
                                             Error := Some (Errorf ''read failed'' readErr)\<rparr>)
                    in stats2\<lparr>Meta := AList.update ''sent''
                                 (StringerFunc (Itoa (int (length ''ping'')))) (Meta stats2)\<rparr>))))"

text \<open>\<^verbatim>\<open>(*Ping).Ping\<close> of package udp. The context of the attempt and its timeout
  reach the lookup, the dial and the read deadline only; what they make of it is in the
  answers above.\<close>

definition udp_Ping :: "udp_Ping \<Rightarrow> udp_env \<Rightarrow> Stats" where
  "udp_Ping p env =
     (let stats = Stats_zero
      in (case ParseIP env of
            Some ip \<Rightarrow> udp_exchange p env (stats\<lparr>DNSDuration := 0\<rparr>) ip
          | None \<Rightarrow>
              (let stats1 = stats\<lparr>DNSDuration := since_startDNS env\<rparr>
               in (case LookupIP env of
                     Inl lookupErr \<Rightarrow>
                       stats1\<lparr>Error := Some (Errorf ''dns lookup failed'' lookupErr),
                              Duration := since_startTotal env\<rparr>
                   | Inr [] \<Rightarrow>
                       stats1\<lparr>Error := Some (ErrorString
                                (''dns lookup returned no IP addresses for '' @ udp_host p)),
                              Duration := since_startTotal env\<rparr>
                   | Inr (ip # others) \<Rightarrow> udp_exchange p env stats1 ip))))"

text \<open>The attempt gets as far as \<^verbatim>\<open>conn.Read\<close>: the address is resolved, the dial and the
  write succeed.\<close>

definition udp_reaches_read :: "udp_env \<Rightarrow> bool" where
  "udp_reaches_read env =
     ((case ParseIP env of
         Some ip \<Rightarrow> True
       | None \<Rightarrow> (case LookupIP env of Inl e \<Rightarrow> False | Inr ips \<Rightarrow> ips \<noteq> []))
      \<and> udp_dial env = None \<and> udp_write env = None)"


text \<open>
  The calls into the network that the UDP probe makes, in order, with the context where
  the source passes one. \<^verbatim>\<open>SetReadDeadline\<close> is given the deadline read off the context of
  the attempt, a point in time; \<^verbatim>\<open>Write\<close> and \<^verbatim>\<open>Read\<close> are given the payload and the
  buffer only.
\<close>

datatype udp_call =
    call_LookupIP Context string string
  | call_DialContext Context string string
  | call_SetReadDeadline Context
  | call_Write string
  | call_Read

fun udp_call_context :: "udp_call \<Rightarrow> Context option" where
  "udp_call_context (call_LookupIP ctx network h) = Some ctx"
| "udp_call_context (call_DialContext ctx network addr) = Some ctx"
| "udp_call_context (call_SetReadDeadline ctx) = None"
| "udp_call_context (call_Write payload) = None"
| "udp_call_context call_Read = None"

definition udp_exchange_calls :: "udp_Ping \<Rightarrow> Context \<Rightarrow> udp_env \<Rightarrow> string \<Rightarrow> udp_call list" where
  "udp_exchange_calls p pingCtx env resolvedIP =
     (let targetAddr = JoinHostPort resolvedIP (Itoa (udp_port p))
      in call_DialContext pingCtx ''udp'' targetAddr #
         (case udp_dial env of
            Some dialErr \<Rightarrow> []
          | None \<Rightarrow>
              call_SetReadDeadline pingCtx # call_Write ''ping'' #
              (case udp_write env of
                 Some writeErr \<Rightarrow> []
               | None \<Rightarrow> [call_Read])))"

definition udp_calls :: "udp_Ping \<Rightarrow> Context \<Rightarrow> udp_env \<Rightarrow> udp_call list" where
  "udp_calls p ctx env =
     (let timeout = (case udp_option p of
                       Some opt \<Rightarrow> (if 0 <s Timeout opt then Timeout opt else DefaultTimeout)
                     | None \<Rightarrow> DefaultTimeout);
          pingCtx = WithTimeout ctx timeout
      in (case ParseIP env of
            Some ip \<Rightarrow> udp_exchange_calls p pingCtx env ip
          | None \<Rightarrow>
              call_LookupIP pingCtx ''ip'' (udp_host p) #
              (case LookupIP env of
                 Inl lookupErr \<Rightarrow> []
               | Inr [] \<Rightarrow> []
               | Inr (ip # others) \<Rightarrow> udp_exchange_calls p pingCtx env ip)))"

subsection \<open>HTTP and HTTPS (package http)\<close>

text \<open>
  The callbacks that the transport fires through \<^verbatim>\<open>httptrace\<close>, each with the reading
  of the clock (\<^verbatim>\<open>time.Now()\<close>) at the moment it runs; \<open>ConnectStart\<close> carries the network
  and the address as well.
\<close>

datatype trace_event =
    DNSStart int64
  | DNSDone int64
  | ConnectStart string string int64
  | ConnectDone int64
  | TLSHandshakeStart int64
  | TLSHandshakeDone int64
  | WroteRequest int64
  | GotFirstResponseByte int64

text \<open>The variables that \<^verbatim>\<open>WithTrace\<close> closes over.\<close>

record trace_locals =
  tl_start :: int64
  tl_dnsStart :: "int64 option"
  tl_connectStart :: "int64 option"
  tl_tlsStart :: "int64 option"
  tl_writeStart :: "int64 option"

text \<open>\<^verbatim>\<open>time.Since\<close>: the difference of two readings; measured from the zero
  \<^verbatim>\<open>time.Time\<close> it saturates at the largest duration.\<close>

fun Since :: "int64 \<Rightarrow> int64 option \<Rightarrow> duration" where
  "Since now (Some t) = now - t"
| "Since now None = MaxInt64"

definition Trace_zero :: Trace where
  "Trace_zero = \<lparr>tr_DNSDuration = 0, connectStart = None, ConnectDuration = 0, tlsStart = None,
     tr_tls = False, TLSDuration = 0, WroteRequestDuration = 0, WaitResponseDuration = 0,
     BodyDuration = 0, address = []\<rparr>"

text \<open>One callback of \<^verbatim>\<open>Trace.WithTrace\<close>. \<open>split\<close> is \<^verbatim>\<open>net.SplitHostPort\<close>: the host
  part of an address, or \<open>None\<close> when it does not parse.\<close>

fun trace_callback ::
  "(string \<Rightarrow> string option) \<Rightarrow> Trace \<times> trace_locals \<Rightarrow> trace_event \<Rightarrow> Trace \<times> trace_locals"
where
  "trace_callback split (t, l) (DNSStart now) = (t, l\<lparr>tl_dnsStart := Some now\<rparr>)"
| "trace_callback split (t, l) (DNSDone now) =
     (t\<lparr>tr_DNSDuration := Since now (tl_dnsStart l)\<rparr>, l)"
| "trace_callback split (t, l) (ConnectStart network addr now) =
     (t\<lparr>connectStart := Some now,
        address := (case split addr of Some h \<Rightarrow> h | None \<Rightarrow> addr)\<rparr>,
      l\<lparr>tl_connectStart := Some now\<rparr>)"
| "trace_callback split (t, l) (ConnectDone now) =
     (t\<lparr>ConnectDuration := Since now (tl_connectStart l)\<rparr>, l)"
| "trace_callback split (t, l) (TLSHandshakeStart now) =
     (t\<lparr>tlsStart := Some now, tr_tls := True\<rparr>, l\<lparr>tl_tlsStart := Some now\<rparr>)"
| "trace_callback split (t, l) (TLSHandshakeDone now) =
     (t\<lparr>TLSDuration := Since now (tl_tlsStart l)\<rparr>, l)"
| "trace_callback split (t, l) (WroteRequest now) =
     (let elapsed = now - tl_start l
      in (t\<lparr>WroteRequestDuration :=
              elapsed - TLSDuration t - ConnectDuration t - tr_DNSDuration t\<rparr>,
          l\<lparr>tl_writeStart := Some now\<rparr>))"
| "trace_callback split (t, l) (GotFirstResponseByte now) =
     (case tl_writeStart l of
        Some ws \<Rightarrow> (t\<lparr>WaitResponseDuration := now - ws\<rparr>, l)
      | None \<Rightarrow>
          (let elapsed = now - tl_start l
           in (t\<lparr>WaitResponseDuration :=
                   elapsed - TLSDuration t - ConnectDuration t - tr_DNSDuration t
                     - WroteRequestDuration t\<rparr>, l)))"

record http_Ping =
  http_trace :: bool
  http_option :: "PingOption option"
  http_method :: string
  http_url :: string

record Response =
  StatusCode :: int

text \<open>
  What the network answers during one HTTP attempt: whether building the request fails, the
  callbacks the transport fires while \<^verbatim>\<open>client.Do\<close> runs (they reach the trace only when
  \<^verbatim>\<open>WithTrace\<close> installed them), the outcome of \<^verbatim>\<open>client.Do\<close>, the byte count and error
  of \<^verbatim>\<open>io.Copy\<close> on the body, and the clock: \<^verbatim>\<open>time.Now()\<close> inside \<^verbatim>\<open>WithTrace\<close>, the
  body read time, and \<^verbatim>\<open>time.Since(start)\<close> where the attempt records its duration.
\<close>

record http_env =
  SplitHostPort :: "string \<Rightarrow> string option"
  NewRequest_error :: "go_error option"
  Do_events :: "trace_event list"
  Do_result :: "go_error + Response"
  body_copy :: "int \<times> go_error option"
  WithTrace_now :: int64
  bodyReadTime :: duration
  http_since_start :: duration

text \<open>\<^verbatim>\<open>stats.Extra = &trace\<close> stores a pointer: what the result shows is the trace as
  it stands when the attempt returns.\<close>

definition http_return :: "http_Ping \<Rightarrow> Trace \<Rightarrow> Stats \<Rightarrow> Stats" where
  "http_return p trace stats =
     (if http_trace p then stats\<lparr>Extra := Some (ExtraTrace trace)\<rparr> else stats)"

text \<open>\<^verbatim>\<open>(*Ping).Ping\<close> of package http.\<close>

definition http_Ping :: "http_Ping \<Rightarrow> http_env \<Rightarrow> Stats" where
  "http_Ping p env =
     (let stats = Stats_zero;
          trace = Trace_zero;
          locals = \<lparr>tl_start = WithTrace_now env, tl_dnsStart = None, tl_connectStart = None,
                    tl_tlsStart = None, tl_writeStart = None\<rparr>
      in (case NewRequest_error env of
            Some err \<Rightarrow>
              http_return p trace (stats\<lparr>Error := Some err, Duration := http_since_start env\<rparr>)
          | None \<Rightarrow>
              (let trace1 = (if http_trace p
                             then fst (foldl (trace_callback (SplitHostPort env))
                                         (trace, locals) (Do_events env))
                             else trace);
                   stats1 = stats\<lparr>DNSDuration := tr_DNSDuration trace1, Address := address trace1\<rparr>
               in (case Do_result env of
                     Inl err \<Rightarrow>
                       http_return p trace1
                         (stats1\<lparr>Error := Some err, Duration := http_since_start env\<rparr>)
                   | Inr resp \<Rightarrow>
                       (let stats2 = stats1\<lparr>Connected := True,
                                       Meta := AList.update ''status'' (Int_http (StatusCode resp))
                                                 (Meta stats1)\<rparr>;
                            trace2 = trace1\<lparr>BodyDuration := bodyReadTime env\<rparr>;
                            stats3 = (if 0 < fst (body_copy env)
                                      then stats2\<lparr>Meta := AList.update ''bytes''
                                             (Int_http (fst (body_copy env))) (Meta stats2)\<rparr>
                                      else stats2);
                            stats4 = stats3\<lparr>Duration := http_since_start env\<rparr>;
                            stats5 = (case snd (body_copy env) of
                                        Some err \<Rightarrow>
                                          stats4\<lparr>Connected := False,
                                                 Error := Some (Errorf ''read body failed'' err)\<rparr>
                                      | None \<Rightarrow> stats4)
                        in http_return p trace2 stats5)))))"


section \<open>Example inputs\<close>

text \<open>A TCP probe with TLS requested and a one-second attempt timeout.\<close>

definition example_tls_probe :: tcp_Ping where
  "example_tls_probe =
     \<lparr>tcp_option = \<lparr>Timeout = 1000000000, UA = []\<rparr>, tcp_host = ''example.com'',
      tcp_port = 443, tcp_tls = True\<rparr>"

text \<open>The port is closed: the TLS dial and the plain dial are both refused.\<close>

definition env_tls_and_dial_refused :: tcp_env where
  "env_tls_and_dial_refused =
     \<lparr>tls_dial_result = Inl (OpError ''dial'' ''tcp'' (Some ''93.184.216.34:443'')
                               (ErrorString ''connect: connection refused'')),
      dial_result = Inl (OpError ''dial'' ''tcp'' (Some ''93.184.216.34:443'')
                               (ErrorString ''connect: connection refused'')),
      dial_DNSDone = Some 2000000,
      since_start = 30000000\<rparr>"

text \<open>The peer accepts the TCP connection and never answers the handshake; the TLS dial
  ends after a minute when the peer closes. By then the deadline of the context has passed,
  and the plain dial that follows fails at once.\<close>

definition env_tls_handshake_stalls :: tcp_env where
  "env_tls_handshake_stalls =
     \<lparr>tls_dial_result = Inl (ErrorString ''EOF''),
      dial_result = Inl (OpError ''dial'' ''tcp'' None
                          (ErrorString ''lookup example.com: i/o timeout'')),
      dial_DNSDone = Some 1000,
      since_start = 60000000000\<rparr>"

text \<open>The peer listens on the port and does not speak TLS: the TLS dial fails within the
  deadline, and the plain dial connects.\<close>

definition env_tls_incapable :: tcp_env where
  "env_tls_incapable =
     \<lparr>tls_dial_result =
        Inl (ErrorString ''tls: first record does not look like a TLS handshake''),
      dial_result = Inr ''93.184.216.34:443'',
      dial_DNSDone = Some 2000000,
      since_start = 45000000\<rparr>"

text \<open>A TLS endpoint with one certificate.\<close>

definition env_tls_ok :: tcp_env where
  "env_tls_ok =
     \<lparr>tls_dial_result = Inr \<lparr>RemoteAddr = ''93.184.216.34:443'',
         State = \<lparr>leaf_Certificate =
                    \<lparr>cert_DNSNames = [''example.com'', ''www.example.com''],
                     cert_NotBefore = 1700000000, cert_NotAfter = 1800000000\<rparr>,
                  chain_Certificates = [],
                  cs_ServerName = ''example.com'', cs_Version = 0x0304\<rparr>\<rparr>,
      dial_result = Inr ''93.184.216.34:443'',
      dial_DNSDone = None,
      since_start = 40000000\<rparr>"

text \<open>UDP: a literal address, the dial and the write succeed, the read times out or
  returns a datagram.\<close>

definition example_udp_probe :: udp_Ping where
  "example_udp_probe =
     \<lparr>udp_option = Some \<lparr>Timeout = 1000000000, UA = []\<rparr>, udp_host = ''127.0.0.1'',
      udp_port = 54321\<rparr>"

definition env_udp_timeout :: udp_env where
  "env_udp_timeout =
     \<lparr>ParseIP = Some ''127.0.0.1'', LookupIP = Inr [], since_startDNS = 0,
      udp_dial = None, udp_write = None,
      udp_read = ([], Some (OpError ''read'' ''udp'' (Some ''127.0.0.1:54321'')
                             (ErrorString ''i/o timeout''))),
      since_startTotal = 1000000000\<rparr>"

text \<open>UDP against a port where nothing answers, in a run that is stopped from outside
  300 ms into the attempt, while \<^verbatim>\<open>conn.Read\<close> blocks: the read has its deadline only,
  runs until it and returns the timeout.\<close>

definition env_udp_stop_during_read :: udp_env where
  "env_udp_stop_during_read =
     \<lparr>ParseIP = Some ''127.0.0.1'', LookupIP = Inr [], since_startDNS = 0,
      udp_dial = None, udp_write = None,
      udp_read = ([], Some (OpError ''read'' ''udp'' (Some ''127.0.0.1:54321'')
                             (ErrorString ''i/o timeout''))),
      since_startTotal = 1000000000\<rparr>"

definition env_udp_reply :: udp_env where
  "env_udp_reply =
     \<lparr>ParseIP = Some ''127.0.0.1'', LookupIP = Inr [], since_startDNS = 0,
      udp_dial = None, udp_write = None,
      udp_read = (''pong'', None),
      since_startTotal = 3000000\<rparr>"

text \<open>HTTP: a probe without tracing; the transport resolves the name, connects and gets a
  200 response whose body breaks off after 512 bytes.\<close>

definition example_http_probe :: http_Ping where
  "example_http_probe =
     \<lparr>http_trace = False, http_option = Some \<lparr>Timeout = 1000000000, UA = ''tcping''\<rparr>,
      http_method = ''GET'', http_url = ''http://example.com:80''\<rparr>"

definition env_http_body_breaks :: http_env where
  "env_http_body_breaks =
     \<lparr>SplitHostPort = (\<lambda>a. if a = ''93.184.216.34:80'' then Some ''93.184.216.34'' else None),
      NewRequest_error = None,
      Do_events = [DNSStart 1000, DNSDone 3000, ConnectStart ''tcp'' ''93.184.216.34:80'' 3100,
                   ConnectDone 5000, WroteRequest 5200, GotFirstResponseByte 9000],
      Do_result = Inr \<lparr>StatusCode = 200\<rparr>,
      body_copy = (512, Some (ErrorString ''unexpected EOF'')),
      WithTrace_now = 900,
      bodyReadTime = 700,
      http_since_start = 9800\<rparr>"

section \<open>Running statistics and summary: properties\<close>

lemma sint_of_nat64: "n < 2 ^ 63 \<Longrightarrow> sint (of_nat n :: 64 word) = int n"
proof -
  assume "n < 2 ^ 63"
  then have "int n < 2 ^ 63" by (metis of_nat_less_iff of_nat_numeral of_nat_power)
  then have "signed_take_bit 63 (int n) = int n"
    by (intro signed_take_bit_int_eq_self) simp_all
  moreover have "sint (word_of_int (int n) :: 64 word) = signed_take_bit 63 (int n)"
    by (simp only: sint_sbintrunc') simp
  moreover have "(of_nat n :: 64 word) = word_of_int (int n)"
    by simp
  ultimately show ?thesis by (simp only:)
qed

lemma logStats_failedTotal:
  "failedTotal (logStats p s) = (if counts_failed s then failedTotal p + 1 else failedTotal p)"
  by (simp add: logStats_def counts_failed_def Let_def split: option.splits)

lemma logStats_total: "total (logStats p s) = total p"
  by (simp add: logStats_def Let_def split: option.splits)

lemma logStats_minDuration:
  "minDuration (logStats p s) =
     (if Connected s \<and> Duration s <s minDuration p then Duration s else minDuration p)"
  by (simp add: logStats_def Let_def split: option.splits)

lemma logStats_maxDuration:
  "maxDuration (logStats p s) =
     (if Connected s \<and> maxDuration p <s Duration s then Duration s else maxDuration p)"
  by (simp add: logStats_def Let_def split: option.splits)

lemma logStats_totalDuration:
  "totalDuration (logStats p s) =
     (if Connected s then totalDuration p + Duration s else totalDuration p)"
  by (simp add: logStats_def Let_def split: option.splits)

lemma logStats_other:
  "counter (logStats p s) = counter p" "url (logStats p s) = url p"
  "stopped (logStats p s) = stopped p"
  by (simp_all add: logStats_def Let_def split: option.splits)

lemma attempts_snoc: "attempts p (rs @ [s]) = attempt_done (attempts p rs) s"
  by (simp add: attempts_def)

lemma attempts_total: "total (attempts p rs) = total p + of_nat (length rs)"
  by (induction rs rule: rev_induct)
     (simp_all add: attempts_snoc attempt_done_def logStats_total Let_def, simp add: attempts_def)


lemma attempt_done_fields:
  "total (attempt_done p s) = total p + 1"
  "failedTotal (attempt_done p s) = failedTotal (logStats p s)"
  "minDuration (attempt_done p s) = minDuration (logStats p s)"
  "maxDuration (attempt_done p s) = maxDuration (logStats p s)"
  "totalDuration (attempt_done p s) = totalDuration (logStats p s)"
  "counter (attempt_done p s) = counter p"
  "url (attempt_done p s) = url p"
  by (simp_all add: attempt_done_def Let_def logStats_total logStats_other)

lemma attempts_Nil: "attempts p [] = p"
  by (simp add: attempts_def)

lemma attempts_Cons: "attempts p (s # rs) = attempts (attempt_done p s) rs"
  by (simp add: attempts_def)

lemma attempts_failedTotal:
  "failedTotal (attempts p rs) = failedTotal p + of_nat (length (filter counts_failed rs))"
  by (induction rs rule: rev_induct)
     (simp_all add: attempts_Nil attempts_snoc attempt_done_fields logStats_failedTotal)

lemma attempts_url: "url (attempts p rs) = url p"
  by (induction rs rule: rev_induct)
     (simp_all add: attempts_Nil attempts_snoc attempt_done_fields)

lemma attempts_min_bound:
  "s \<in> set rs \<Longrightarrow> Connected s \<Longrightarrow> minDuration (attempts p rs) \<le>s Duration s"
proof (induction rs rule: rev_induct)
  case Nil
  then show ?case by simp
next
  case (snoc x xs)
  show ?case
  proof (cases "s = x")
    case True
    with snoc.prems show ?thesis
      by (simp add: attempts_snoc attempt_done_fields logStats_minDuration word_sle_eq word_sless_alt)
  next
    case False
    with snoc have "minDuration (attempts p xs) \<le>s Duration s" by simp
    then show ?thesis
      by (simp add: attempts_snoc attempt_done_fields logStats_minDuration word_sle_eq word_sless_alt)
  qed
qed

lemma attempts_max_bound:
  "s \<in> set rs \<Longrightarrow> Connected s \<Longrightarrow> Duration s \<le>s maxDuration (attempts p rs)"
proof (induction rs rule: rev_induct)
  case Nil
  then show ?case by simp
next
  case (snoc x xs)
  show ?case
  proof (cases "s = x")
    case True
    with snoc.prems show ?thesis
      by (simp add: attempts_snoc attempt_done_fields logStats_maxDuration word_sle_eq word_sless_alt)
  next
    case False
    with snoc have "Duration s \<le>s maxDuration (attempts p xs)" by simp
    then show ?thesis
      by (simp add: attempts_snoc attempt_done_fields logStats_maxDuration word_sle_eq word_sless_alt)
  qed
qed

lemma attempts_none_connected:
  "\<forall>s\<in>set rs. \<not> Connected s \<Longrightarrow>
     minDuration (attempts p rs) = minDuration p \<and> maxDuration (attempts p rs) = maxDuration p
     \<and> totalDuration (attempts p rs) = totalDuration p"
  by (induction rs rule: rev_induct)
     (simp_all add: attempts_Nil attempts_snoc attempt_done_fields logStats_minDuration
        logStats_maxDuration logStats_totalDuration)

lemma attempts_totalDuration:
  "totalDuration (attempts p rs) = totalDuration p + sum_list (map Duration (filter Connected rs))"
  by (induction rs rule: rev_induct)
     (simp_all add: attempts_Nil attempts_snoc attempt_done_fields logStats_totalDuration)

lemma Ping_loop_attempts:
  "\<exists>k. k \<le> length rs \<and> (rs \<noteq> [] \<longrightarrow> 0 < k) \<and> Ping_loop p rs = Stop (attempts p (take k rs))"
proof (induction rs arbitrary: p)
  case Nil
  then show ?case by (simp add: attempts_Nil)
next
  case (Cons s rs)
  let ?p2 = "attempt_done p s"
  show ?case
  proof (cases "0 <s counter ?p2 \<and> counter ?p2 \<le>s total ?p2")
    case True
    then have "Ping_loop p (s # rs) = Stop (attempts p (take 1 (s # rs)))"
      by (simp add: Let_def attempts_Cons attempts_Nil)
    then show ?thesis by (intro exI [of _ 1]) simp
  next
    case False
    from Cons.IH [of ?p2] obtain k where
      k: "k \<le> length rs" "Ping_loop ?p2 rs = Stop (attempts ?p2 (take k rs))" by blast
    from False have "Ping_loop p (s # rs) = Ping_loop ?p2 rs"
      by (auto simp add: Let_def)
    with k have "Ping_loop p (s # rs) = Stop (attempts p (take (Suc k) (s # rs)))"
      by (simp add: attempts_Cons)
    with k(1) show ?thesis by (intro exI [of _ "Suc k"]) simp
  qed
qed

lemma failed_le_total:
  assumes "length rs < 2 ^ 63"
  shows "failedTotal (attempts (NewPinger u iv c tmo\<lparr>minDuration := MaxInt64\<rparr>) rs)
         \<le>s total (attempts (NewPinger u iv c tmo\<lparr>minDuration := MaxInt64\<rparr>) rs)"
proof -
  have a: "length (filter counts_failed rs) \<le> length rs" by simp
  with assms have b: "length (filter counts_failed rs) < 2 ^ 63" by linarith
  show ?thesis
    using a by (simp add: attempts_failedTotal attempts_total NewPinger_def word_sle_eq
        sint_of_nat64 [OF assms] sint_of_nat64 [OF b])
qed


lemma Itoa_54321: "Itoa 54321 = ''54321''"
  by (simp add: Itoa_def digits.simps) code_simp

text \<open>What \<^verbatim>\<open>logStats\<close> counts: the failure counter goes up by one exactly for a result
  whose error is not the cancellation error, and keeps its value otherwise.\<close>

lemma logStats_failedTotal_iff:
  "(failedTotal (logStats p stats) = failedTotal p + 1
      \<longleftrightarrow> (\<exists>e. Error stats = Some e \<and> \<not> is_Canceled e))
   \<and> (failedTotal (logStats p stats) = failedTotal p
      \<longleftrightarrow> \<not> (\<exists>e. Error stats = Some e \<and> \<not> is_Canceled e))"
  by (auto simp add: logStats_failedTotal counts_failed_def split: option.splits)

text \<open>
  Claim C3. The claim asks that an attempt aborted by the shutdown of the scheduler never
  adds to the failure count. A UDP attempt that is in flight when the run is stopped is
  not aborted: of its network calls only the dial carries the context, \<^verbatim>\<open>conn.Read\<close> has
  the read deadline alone, so the read runs to the deadline and the attempt returns
  \<^verbatim>\<open>read failed\<close> with a timeout. That error is not the cancellation error, and the loop
  counts the interrupted attempt as failed before it ends.
\<close>

theorem udp_attempt_in_flight_at_Stop_counts_failed:
  "udp_calls example_udp_probe (WithTimeout (WithCancel Background) 1000000000)
       env_udp_stop_during_read =
     [call_DialContext
        (WithTimeout (WithTimeout (WithCancel Background) 1000000000) 1000000000)
        ''udp'' ''127.0.0.1:54321'',
      call_SetReadDeadline
        (WithTimeout (WithTimeout (WithCancel Background) 1000000000) 1000000000),
      call_Write ''ping'',
      call_Read]
   \<and> udp_call_context (last (udp_calls example_udp_probe
          (WithTimeout (WithCancel Background) 1000000000) env_udp_stop_during_read)) = None
   \<and> Error (udp_Ping example_udp_probe env_udp_stop_during_read) =
       Some (Errorf ''read failed'' (OpError ''read'' ''udp'' (Some ''127.0.0.1:54321'')
               (ErrorString ''i/o timeout'')))
   \<and> \<not> is_Canceled (Errorf ''read failed'' (OpError ''read'' ''udp''
          (Some ''127.0.0.1:54321'') (ErrorString ''i/o timeout'')))
   \<and> stopped (Ping (NewPinger ''udp://127.0.0.1:54321'' 1000000000 0 1000000000)
          [udp_Ping example_udp_probe env_udp_stop_during_read])
   \<and> total (Ping (NewPinger ''udp://127.0.0.1:54321'' 1000000000 0 1000000000)
          [udp_Ping example_udp_probe env_udp_stop_during_read]) = 1
   \<and> failedTotal (Ping (NewPinger ''udp://127.0.0.1:54321'' 1000000000 0 1000000000)
          [udp_Ping example_udp_probe env_udp_stop_during_read]) = 1"
proof -
  have calls: "udp_calls example_udp_probe (WithTimeout (WithCancel Background) 1000000000)
       env_udp_stop_during_read =
     [call_DialContext
        (WithTimeout (WithTimeout (WithCancel Background) 1000000000) 1000000000)
        ''udp'' ''127.0.0.1:54321'',
      call_SetReadDeadline
        (WithTimeout (WithTimeout (WithCancel Background) 1000000000) 1000000000),
      call_Write ''ping'',
      call_Read]"
    by (simp add: udp_calls_def udp_exchange_calls_def example_udp_probe_def
        env_udp_stop_during_read_def JoinHostPort_def Let_def word_sless_alt Itoa_54321)
  have err: "Error (udp_Ping example_udp_probe env_udp_stop_during_read) =
       Some (Errorf ''read failed'' (OpError ''read'' ''udp'' (Some ''127.0.0.1:54321'')
               (ErrorString ''i/o timeout'')))"
    by (simp add: udp_Ping_def udp_exchange_def example_udp_probe_def
        env_udp_stop_during_read_def Let_def Stats_zero_def)
  have con: "\<not> Connected (udp_Ping example_udp_probe env_udp_stop_during_read)"
    by (simp add: udp_Ping_def udp_exchange_def example_udp_probe_def
        env_udp_stop_during_read_def Let_def Stats_zero_def)
  have run: "Ping (NewPinger ''udp://127.0.0.1:54321'' 1000000000 0 1000000000)
          [udp_Ping example_udp_probe env_udp_stop_during_read] =
        Stop (attempt_done (NewPinger ''udp://127.0.0.1:54321'' 1000000000 0 1000000000
                 \<lparr>minDuration := MaxInt64\<rparr>)
               (udp_Ping example_udp_probe env_udp_stop_during_read))"
    by (simp add: Ping_def Let_def attempt_done_fields NewPinger_def)
  show ?thesis
    unfolding run calls
    by (simp add: err Stop_def attempt_done_fields logStats_failedTotal counts_failed_def
        NewPinger_def)
qed

text \<open>
  Claim C6. After the loop has processed any sequence of results (fewer than \<open>2^63\<close> of
  them, so that the 64-bit counters have not wrapped), starting from the state that
  \<^verbatim>\<open>NewPinger\<close> and the start of \<^verbatim>\<open>Ping\<close> set up: the minimum is at most, and the maximum
  at least, the duration of every processed result with \<open>Connected\<close>; the failure count is
  at most the total count; the sum of durations is the sum over the connected results only;
  and a result that is not connected changes none of minimum, maximum and sum. The state in
  which \<^verbatim>\<open>Ping\<close> ends is such a state, for the results processed before the run ended.
\<close>

theorem running_stats_invariant:
  assumes "length rs < 2 ^ 63"
  shows "(\<forall>s\<in>set rs. Connected s \<longrightarrow>
            minDuration (attempts (NewPinger u iv c tmo\<lparr>minDuration := MaxInt64\<rparr>) rs) \<le>s Duration s
          \<and> Duration s \<le>s maxDuration (attempts (NewPinger u iv c tmo\<lparr>minDuration := MaxInt64\<rparr>) rs))
       \<and> failedTotal (attempts (NewPinger u iv c tmo\<lparr>minDuration := MaxInt64\<rparr>) rs)
           \<le>s total (attempts (NewPinger u iv c tmo\<lparr>minDuration := MaxInt64\<rparr>) rs)
       \<and> totalDuration (attempts (NewPinger u iv c tmo\<lparr>minDuration := MaxInt64\<rparr>) rs)
           = sum_list (map Duration (filter Connected rs))
       \<and> (\<forall>q s. \<not> Connected s \<longrightarrow>
            minDuration (attempt_done q s) = minDuration q
          \<and> maxDuration (attempt_done q s) = maxDuration q
          \<and> totalDuration (attempt_done q s) = totalDuration q)
       \<and> (\<exists>k\<le>length rs.
            Ping (NewPinger u iv c tmo) rs =
              Stop (attempts (NewPinger u iv c tmo\<lparr>minDuration := MaxInt64\<rparr>) (take k rs)))"
proof (intro conjI)
  show "\<forall>s\<in>set rs. Connected s \<longrightarrow>
            minDuration (attempts (NewPinger u iv c tmo\<lparr>minDuration := MaxInt64\<rparr>) rs) \<le>s Duration s
          \<and> Duration s \<le>s maxDuration (attempts (NewPinger u iv c tmo\<lparr>minDuration := MaxInt64\<rparr>) rs)"
    by (simp add: attempts_min_bound attempts_max_bound)
  show "failedTotal (attempts (NewPinger u iv c tmo\<lparr>minDuration := MaxInt64\<rparr>) rs)
           \<le>s total (attempts (NewPinger u iv c tmo\<lparr>minDuration := MaxInt64\<rparr>) rs)"
    by (rule failed_le_total [OF assms])
  show "totalDuration (attempts (NewPinger u iv c tmo\<lparr>minDuration := MaxInt64\<rparr>) rs)
           = sum_list (map Duration (filter Connected rs))"
    by (simp add: attempts_totalDuration NewPinger_def)
  show "\<forall>q s. \<not> Connected s \<longrightarrow>
            minDuration (attempt_done q s) = minDuration q
          \<and> maxDuration (attempt_done q s) = maxDuration q
          \<and> totalDuration (attempt_done q s) = totalDuration q"
    by (simp add: attempt_done_fields logStats_minDuration logStats_maxDuration
        logStats_totalDuration)
  from Ping_loop_attempts [of rs "NewPinger u iv c tmo\<lparr>minDuration := MaxInt64\<rparr>"]
  show "\<exists>k\<le>length rs.
            Ping (NewPinger u iv c tmo) rs =
              Stop (attempts (NewPinger u iv c tmo\<lparr>minDuration := MaxInt64\<rparr>) (take k rs))"
    unfolding Ping_def by blast
qed

theorem running_stats_invariant_witness:
  "length [Stats_zero\<lparr>Connected := True, Duration := 30\<rparr>,
           Stats_zero\<lparr>Error := Some DeadlineExceeded, Duration := 5000\<rparr>,
           Stats_zero\<lparr>Connected := True, Duration := 10\<rparr>] < (2::nat) ^ 63
   \<and> failedTotal (attempts (NewPinger ''tcp://example.com:80'' 0 0 0\<lparr>minDuration := MaxInt64\<rparr>)
          [Stats_zero\<lparr>Connected := True, Duration := 30\<rparr>,
           Stats_zero\<lparr>Error := Some DeadlineExceeded, Duration := 5000\<rparr>,
           Stats_zero\<lparr>Connected := True, Duration := 10\<rparr>])
       \<le>s total (attempts (NewPinger ''tcp://example.com:80'' 0 0 0\<lparr>minDuration := MaxInt64\<rparr>)
          [Stats_zero\<lparr>Connected := True, Duration := 30\<rparr>,
           Stats_zero\<lparr>Error := Some DeadlineExceeded, Duration := 5000\<rparr>,
           Stats_zero\<lparr>Connected := True, Duration := 10\<rparr>])
   \<and> minDuration (attempts (NewPinger ''tcp://example.com:80'' 0 0 0\<lparr>minDuration := MaxInt64\<rparr>)
          [Stats_zero\<lparr>Connected := True, Duration := 30\<rparr>,
           Stats_zero\<lparr>Error := Some DeadlineExceeded, Duration := 5000\<rparr>,
           Stats_zero\<lparr>Connected := True, Duration := 10\<rparr>]) \<le>s 10
   \<and> 30 \<le>s maxDuration (attempts (NewPinger ''tcp://example.com:80'' 0 0 0\<lparr>minDuration := MaxInt64\<rparr>)
          [Stats_zero\<lparr>Connected := True, Duration := 30\<rparr>,
           Stats_zero\<lparr>Error := Some DeadlineExceeded, Duration := 5000\<rparr>,
           Stats_zero\<lparr>Connected := True, Duration := 10\<rparr>])"
  using running_stats_invariant [of
      "[Stats_zero\<lparr>Connected := True, Duration := 30\<rparr>,
        Stats_zero\<lparr>Error := Some DeadlineExceeded, Duration := 5000\<rparr>,
        Stats_zero\<lparr>Connected := True, Duration := 10\<rparr>]"
      "''tcp://example.com:80''" 0 0 0]
  by (simp add: Stats_zero_def)


lemma Stop_fields:
  "total (Stop p) = total p" "failedTotal (Stop p) = failedTotal p"
  "minDuration (Stop p) = minDuration p" "maxDuration (Stop p) = maxDuration p"
  "totalDuration (Stop p) = totalDuration p" "url (Stop p) = url p"
  by (simp_all add: Stop_def)

lemma go_div_zero: "go_div 0 b = 0"
  by (simp add: go_div_def)

lemma Ping_none_connected:
  assumes "rs \<noteq> []" and "length rs < 2 ^ 63" and "\<forall>s\<in>set rs. \<not> Connected s"
  shows "0 <s total (Ping (NewPinger u iv c tmo) rs)
       \<and> minDuration (Ping (NewPinger u iv c tmo) rs) = MaxInt64
       \<and> maxDuration (Ping (NewPinger u iv c tmo) rs) = 0
       \<and> totalDuration (Ping (NewPinger u iv c tmo) rs) = 0
       \<and> url (Ping (NewPinger u iv c tmo) rs) = u"
proof -
  let ?p0 = "NewPinger u iv c tmo\<lparr>minDuration := MaxInt64\<rparr>"
  from Ping_loop_attempts [of rs ?p0] assms(1) obtain k where
    k: "k \<le> length rs" "0 < k" and run: "Ping_loop ?p0 rs = Stop (attempts ?p0 (take k rs))"
    by blast
  from k assms(2) have kb: "k < 2 ^ 63" by linarith
  have len: "length (take k rs) = k" using k by simp
  have "total (attempts ?p0 (take k rs)) = of_nat k"
    unfolding attempts_total len by (simp add: NewPinger_def)
  then have pos: "0 <s total (attempts ?p0 (take k rs))"
    using k(2) by (simp add: word_sless_alt sint_of_nat64 [OF kb])
  have "\<forall>s\<in>set (take k rs). \<not> Connected s"
    using assms(3) by (meson in_set_takeD)
  from attempts_none_connected [OF this, of ?p0]
  have "minDuration (attempts ?p0 (take k rs)) = MaxInt64"
    and "maxDuration (attempts ?p0 (take k rs)) = 0"
    and "totalDuration (attempts ?p0 (take k rs)) = 0"
    by (simp_all add: NewPinger_def)
  with pos run show ?thesis
    by (simp add: Ping_def Stop_fields attempts_url) (simp add: NewPinger_def)
qed

text \<open>
  Claim C9. When at least one attempt completed and no result was connected, the summary
  takes the branch that prints minimum, maximum and average (its guard looks at the total
  count only), and it reports the minimum as the initial sentinel \<open>2^63 - 1\<close> ns, the maximum
  as 0 and the average as 0.
\<close>

theorem Summarize_without_success:
  assumes "rs \<noteq> []" and "length rs < 2 ^ 63" and "\<forall>s\<in>set rs. \<not> Connected s"
  shows "sd_Total (Summarize_data (Ping (NewPinger u iv c tmo) rs)) \<noteq> 0
       \<and> sd_MinDuration (Summarize_data (Ping (NewPinger u iv c tmo) rs)) = MaxInt64
       \<and> sd_MaxDuration (Summarize_data (Ping (NewPinger u iv c tmo) rs)) = 0
       \<and> sd_AvgDuration (Summarize_data (Ping (NewPinger u iv c tmo) rs)) = 0
       \<and> (\<exists>head. Summarize durString (Ping (NewPinger u iv c tmo) rs) =
             head @ ''Approximate trip times:'' @ [CHR 0x0A]
               @ ''    Minimum = '' @ durString MaxInt64
               @ '', Maximum = '' @ durString 0 @ '', Average = '' @ durString 0)"
proof -
  let ?p = "Ping (NewPinger u iv c tmo) rs"
  from Ping_none_connected [OF assms, of u iv c tmo]
  have pos: "0 <s total ?p" and mn: "minDuration ?p = MaxInt64" and mx: "maxDuration ?p = 0"
    and td: "totalDuration ?p = 0"
    by simp_all
  from pos have nz: "total ?p \<noteq> 0" by auto
  have d: "Summarize_data ?p =
      \<lparr>sd_URL = url ?p, sd_Total = total ?p, sd_SuccessTotal = total ?p - failedTotal ?p,
       sd_FailedTotal = failedTotal ?p, sd_MinDuration = MaxInt64, sd_MaxDuration = 0,
       sd_AvgDuration = 0\<rparr>"
    using pos by (simp add: Summarize_data_def Let_def mn mx td go_div_zero)
  show ?thesis
    unfolding Summarize_def d using nz
    by (simp add: summaryTpl_def)
qed


theorem Summarize_without_success_witness:
  "[Stats_zero\<lparr>Error := Some DeadlineExceeded, Duration := 5000\<rparr>] \<noteq> []
   \<and> length [Stats_zero\<lparr>Error := Some DeadlineExceeded, Duration := 5000\<rparr>] < (2::nat) ^ 63
   \<and> \<not> Connected (Stats_zero\<lparr>Error := Some DeadlineExceeded, Duration := 5000\<rparr>)
   \<and> sd_MinDuration (Summarize_data (Ping (NewPinger ''tcp://example.com:80'' 0 1 0)
        [Stats_zero\<lparr>Error := Some DeadlineExceeded, Duration := 5000\<rparr>])) = 9223372036854775807
   \<and> sd_MaxDuration (Summarize_data (Ping (NewPinger ''tcp://example.com:80'' 0 1 0)
        [Stats_zero\<lparr>Error := Some DeadlineExceeded, Duration := 5000\<rparr>])) = 0"
  using Summarize_without_success [of
      "[Stats_zero\<lparr>Error := Some DeadlineExceeded, Duration := 5000\<rparr>]"
      "''tcp://example.com:80''" 0 1 0]
  by (simp add: Stats_zero_def MaxInt64_def)

text \<open>
  Claim C1. The claim asks for the average over the successful attempts. On a run of one
  connected attempt of 10 ns followed by one failed attempt, the sum of successful durations
  is 10 and one attempt succeeded, so the claimed average is 10 (what \<^verbatim>\<open>Result.Avg\<close>
  computes from the same numbers); \<^verbatim>\<open>Summarize\<close> divides by the total count of 2 and
  reports 5.
\<close>

theorem Summarize_average_over_all_attempts:
  "totalDuration (Ping (NewPinger ''tcp://example.com:80'' 0 2 0)
      [Stats_zero\<lparr>Connected := True, Duration := 10\<rparr>,
       Stats_zero\<lparr>Error := Some DeadlineExceeded, Duration := 5000\<rparr>]) = 10
   \<and> sd_SuccessTotal (Summarize_data (Ping (NewPinger ''tcp://example.com:80'' 0 2 0)
      [Stats_zero\<lparr>Connected := True, Duration := 10\<rparr>,
       Stats_zero\<lparr>Error := Some DeadlineExceeded, Duration := 5000\<rparr>])) = 1
   \<and> sd_AvgDuration (Summarize_data (Ping (NewPinger ''tcp://example.com:80'' 0 2 0)
      [Stats_zero\<lparr>Connected := True, Duration := 10\<rparr>,
       Stats_zero\<lparr>Error := Some DeadlineExceeded, Duration := 5000\<rparr>])) = 5
   \<and> go_div 10 1 = 10
   \<and> Avg \<lparr>Counter = 2, SuccessCounter = 1, MinDuration = 10, MaxDuration = 10,
          TotalDuration = 10\<rparr> = 10"
  by (simp add: Ping_def NewPinger_def Stats_zero_def attempt_done_def logStats_def
      Summarize_data_def Stop_def MaxInt64_def Avg_def go_div_def Let_def signed_divide_int_def
      word_sless_alt word_sle_eq)

section \<open>Metadata rendering: properties\<close>

lemma sort_distinct_set: "distinct xs \<Longrightarrow> sort xs = sorted_list_of_set (set xs)"
  by (metis sorted_list_of_set_sort_remdups distinct_remdups_id)

lemma sort_keys_eq:
  assumes "distinct (map fst m1)" and "distinct (map fst m2)" and "set m1 = set m2"
  shows "sort (map fst m1) = sort (map fst (m2 :: (string \<times> stringer) list))"
proof -
  have "set (map fst m1) = set (map fst m2)"
    using assms(3) by simp
  then show ?thesis
    by (simp only: sort_distinct_set [OF assms(1)] sort_distinct_set [OF assms(2)])
qed

lemma map_of_eq_entries:
  assumes "distinct (map fst m1)" and "distinct (map fst m2)" and "set m1 = set m2"
  shows "map_of m1 = map_of m2"
  using assms by (simp add: map_of_inject_set)

lemma FormatMeta_unfold:
  "FormatMeta (s\<lparr>Meta := m\<rparr>) = join_space (map (FormatMeta_pair m) (sort (map fst m)))"
  by (cases m) (simp_all add: FormatMeta_def Let_def)

lemma FormatMeta_pair_alt:
  "FormatMeta_pair m k =
     k @ ''='' @ (case map_of m k of Some v \<Rightarrow> stringer_String v | None \<Rightarrow> ''<nil>'')"
  by (simp add: FormatMeta_pair_def split: option.splits)

text \<open>
  Claim C8. \<^verbatim>\<open>FormatMeta\<close> is deterministic and ordered: two maps with the same entries,
  whatever the order in which their entries are visited, render to the same string; the
  rendering is the space-joined list of \<^verbatim>\<open>key=value\<close> pairs over the keys of the map in
  sorted order, each key once; and the map with \<^verbatim>\<open>b\<close> = 2 and \<^verbatim>\<open>a\<close> = 1 renders as
  \<^verbatim>\<open>a=1 b=2\<close>.
\<close>

theorem FormatMeta_sorted_deterministic:
  assumes "distinct (map fst m1)" and "distinct (map fst m2)" and "set m1 = set m2"
  shows "FormatMeta (s1\<lparr>Meta := m1\<rparr>) = FormatMeta (s2\<lparr>Meta := m2\<rparr>)
       \<and> (\<exists>keys. sorted keys \<and> distinct keys \<and> set keys = fst ` set m1
            \<and> FormatMeta (s1\<lparr>Meta := m1\<rparr>) =
                join_space (map (\<lambda>k. k @ ''='' @ (case map_of m1 k of
                                                    Some v \<Rightarrow> stringer_String v
                                                  | None \<Rightarrow> ''<nil>'')) keys))
       \<and> FormatMeta (Stats_zero\<lparr>Meta := [(''b'', StringerFunc ''2''), (''a'', StringerFunc ''1'')]\<rparr>)
           = ''a=1 b=2''"
proof (intro conjI)
  show "FormatMeta (s1\<lparr>Meta := m1\<rparr>) = FormatMeta (s2\<lparr>Meta := m2\<rparr>)"
  proof -
    have "FormatMeta_pair m1 = FormatMeta_pair m2"
      by (simp add: fun_eq_iff FormatMeta_pair_def map_of_eq_entries [OF assms])
    then show ?thesis
      unfolding FormatMeta_unfold sort_keys_eq [OF assms] by simp
  qed
  have "sorted (sort (map fst m1))" "distinct (sort (map fst m1))"
    "set (sort (map fst m1)) = fst ` set m1"
    using assms(1) by simp_all
  moreover have "FormatMeta (s1\<lparr>Meta := m1\<rparr>) =
      join_space (map (\<lambda>k. k @ ''='' @ (case map_of m1 k of
                                          Some v \<Rightarrow> stringer_String v
                                        | None \<Rightarrow> ''<nil>'')) (sort (map fst m1)))"
  proof -
    have "FormatMeta_pair m1 = (\<lambda>k. k @ ''='' @ (case map_of m1 k of
                                          Some v \<Rightarrow> stringer_String v
                                        | None \<Rightarrow> ''<nil>''))"
      by (simp add: fun_eq_iff FormatMeta_pair_alt)
    then show ?thesis
      unfolding FormatMeta_unfold by (simp only:)
  qed
  ultimately show "\<exists>keys. sorted keys \<and> distinct keys \<and> set keys = fst ` set m1
            \<and> FormatMeta (s1\<lparr>Meta := m1\<rparr>) =
                join_space (map (\<lambda>k. k @ ''='' @ (case map_of m1 k of
                                                    Some v \<Rightarrow> stringer_String v
                                                  | None \<Rightarrow> ''<nil>'')) keys)"
    by blast
  show "FormatMeta (Stats_zero\<lparr>Meta := [(''b'', StringerFunc ''2''), (''a'', StringerFunc ''1'')]\<rparr>)
           = ''a=1 b=2''"
    by code_simp
qed

theorem FormatMeta_sorted_deterministic_witness:
  "distinct (map fst [(''b'', Int_http 2), (''a'', Int_http 1)])
   \<and> distinct (map fst [(''a'', Int_http 1), (''b'', Int_http 2)])
   \<and> set [(''b'', Int_http 2), (''a'', Int_http 1)] = set [(''a'', Int_http 1), (''b'', Int_http 2)]
   \<and> FormatMeta (Stats_zero\<lparr>Meta := [(''b'', Int_http 2), (''a'', Int_http 1)]\<rparr>)
       = FormatMeta (Stats_zero\<lparr>Meta := [(''a'', Int_http 1), (''b'', Int_http 2)]\<rparr>)"
proof -
  have d1: "distinct (map fst [(''b'', Int_http 2), (''a'', Int_http 1)])" by simp
  have d2: "distinct (map fst [(''a'', Int_http 1), (''b'', Int_http 2)])" by simp
  have e: "set [(''b'', Int_http 2), (''a'', Int_http 1)] = set [(''a'', Int_http 1), (''b'', Int_http 2)]"
    by auto
  from FormatMeta_sorted_deterministic [OF d1 d2 e, of Stats_zero Stats_zero] d1 d2 e
  show ?thesis by blast
qed


section \<open>The probes: properties\<close>

lemma tcp_Ping_tls_ok:
  assumes "tcp_tls p" and "tls_dial_result env = Inr tc"
  shows "tcp_Ping p ctx env =
     (Stats_zero\<lparr>Duration := since_start env, Connected := True, Address := RemoteAddr tc,
        Extra := Some (ExtraMeta
          \<lparr>Version = uint (cs_Version (State tc) - VersionTLS10),
           DNSNames = cert_DNSNames (leaf_Certificate (State tc)),
           ServerName = cs_ServerName (State tc),
           NotBefore = cert_NotBefore (leaf_Certificate (State tc)),
           NotAfter = cert_NotAfter (leaf_Certificate (State tc))\<rparr>)\<rparr>,
      [tls_DialWithDialer ''tcp'' (tcp_host p @ '':'' @ Itoa (tcp_port p))])"
  using assms by (simp add: tcp_Ping_def PeerCertificates_def Let_def)

lemma tcp_Ping_tls_failed:
  assumes "tcp_tls p" and "tls_dial_result env = Inl e"
  shows "snd (tcp_Ping p ctx env) =
       [tls_DialWithDialer ''tcp'' (tcp_host p @ '':'' @ Itoa (tcp_port p)),
        DialContext (WithClientTrace (WithTimeout ctx
            (if 0 <s Timeout (tcp_option p) then Timeout (tcp_option p) else DefaultTimeout)))
          ''tcp'' (tcp_host p @ '':'' @ Itoa (tcp_port p))]"
    and "Connected (fst (tcp_Ping p ctx env)) = (\<exists>remote. dial_result env = Inr remote)"
    and "dial_result env = Inr remote \<Longrightarrow>
           Extra (fst (tcp_Ping p ctx env)) =
             Some (ExtraBuffer (''TLS handshake failed, '' @ Error_text e))
         \<and> Error (fst (tcp_Ping p ctx env)) = None"
    and "dial_result env = Inl e2 \<Longrightarrow>
           Extra (fst (tcp_Ping p ctx env)) = None \<and> Error (fst (tcp_Ping p ctx env)) = Some e2"
  using assms
  by (auto simp add: tcp_Ping_def tcp_DialContext_def Let_def Stats_zero_def
      split: sum.splits option.splits)


text \<open>
  Claim C4, as stated, fails where the TLS dial fails and the plain dial fails too: the
  result is not connected and \<open>Extra\<close> is empty, it carries no handshake-failure note.
\<close>

theorem tcp_tls_handshake_note_counterexample:
  "tcp_tls example_tls_probe
   \<and> tls_dial_result env_tls_and_dial_refused =
        Inl (OpError ''dial'' ''tcp'' (Some ''93.184.216.34:443'')
               (ErrorString ''connect: connection refused''))
   \<and> \<not> Connected (fst (tcp_Ping example_tls_probe Background env_tls_and_dial_refused))
   \<and> Extra (fst (tcp_Ping example_tls_probe Background env_tls_and_dial_refused)) = None"
  by (simp add: example_tls_probe_def env_tls_and_dial_refused_def tcp_Ping_def
      tcp_DialContext_def Let_def Stats_zero_def)

text \<open>
  Claim C4, amended. For the TCP probe with TLS requested: if the TLS handshake succeeds, the
  result is connected and \<open>Extra\<close> carries the certificate summary (DNS names, server name,
  version offset from TLS 1.0, validity window, taken from the leaf certificate). If the
  handshake fails, a plain TCP dial to the same target is made next, and \<open>Connected\<close> is the
  outcome of that dial; when the dial succeeds \<open>Extra\<close> is the one-line note with the text of
  the TLS error, and when the dial fails too \<open>Extra\<close> stays empty and \<open>Error\<close> is the error
  of the dial.
\<close>

theorem tcp_tls_result:
  assumes "tcp_tls p"
  shows "(\<forall>tc. tls_dial_result env = Inr tc \<longrightarrow>
              Connected (fst (tcp_Ping p ctx env))
            \<and> Extra (fst (tcp_Ping p ctx env)) = Some (ExtraMeta
                 \<lparr>Version = uint (cs_Version (State tc) - VersionTLS10),
                  DNSNames = cert_DNSNames (leaf_Certificate (State tc)),
                  ServerName = cs_ServerName (State tc),
                  NotBefore = cert_NotBefore (leaf_Certificate (State tc)),
                  NotAfter = cert_NotAfter (leaf_Certificate (State tc))\<rparr>))
       \<and> (\<forall>e. tls_dial_result env = Inl e \<longrightarrow>
              snd (tcp_Ping p ctx env) =
                [tls_DialWithDialer ''tcp'' (tcp_host p @ '':'' @ Itoa (tcp_port p)),
                 DialContext (WithClientTrace (WithTimeout ctx
                     (if 0 <s Timeout (tcp_option p) then Timeout (tcp_option p)
                      else DefaultTimeout)))
                   ''tcp'' (tcp_host p @ '':'' @ Itoa (tcp_port p))]
            \<and> Connected (fst (tcp_Ping p ctx env)) = (\<exists>remote. dial_result env = Inr remote)
            \<and> (\<forall>remote. dial_result env = Inr remote \<longrightarrow>
                  Extra (fst (tcp_Ping p ctx env)) =
                    Some (ExtraBuffer (''TLS handshake failed, '' @ Error_text e)))
            \<and> (\<forall>e2. dial_result env = Inl e2 \<longrightarrow>
                  Extra (fst (tcp_Ping p ctx env)) = None
                \<and> Error (fst (tcp_Ping p ctx env)) = Some e2))"
proof (intro conjI allI impI)
  fix tc
  assume a: "tls_dial_result env = Inr tc"
  show "Connected (fst (tcp_Ping p ctx env))"
    by (simp add: tcp_Ping_tls_ok [OF assms a])
  show "Extra (fst (tcp_Ping p ctx env)) = Some (ExtraMeta
                 \<lparr>Version = uint (cs_Version (State tc) - VersionTLS10),
                  DNSNames = cert_DNSNames (leaf_Certificate (State tc)),
                  ServerName = cs_ServerName (State tc),
                  NotBefore = cert_NotBefore (leaf_Certificate (State tc)),
                  NotAfter = cert_NotAfter (leaf_Certificate (State tc))\<rparr>)"
    by (simp add: tcp_Ping_tls_ok [OF assms a])
next
  fix e
  assume e: "tls_dial_result env = Inl e"
  show "snd (tcp_Ping p ctx env) =
                [tls_DialWithDialer ''tcp'' (tcp_host p @ '':'' @ Itoa (tcp_port p)),
                 DialContext (WithClientTrace (WithTimeout ctx
                     (if 0 <s Timeout (tcp_option p) then Timeout (tcp_option p)
                      else DefaultTimeout)))
                   ''tcp'' (tcp_host p @ '':'' @ Itoa (tcp_port p))]"
    by (rule tcp_Ping_tls_failed(1) [OF assms e])
  show "Connected (fst (tcp_Ping p ctx env)) = (\<exists>remote. dial_result env = Inr remote)"
    by (rule tcp_Ping_tls_failed(2) [OF assms e])
  {
    fix remote
    assume "dial_result env = Inr remote"
    from tcp_Ping_tls_failed(3) [OF assms e this]
    show "Extra (fst (tcp_Ping p ctx env)) =
        Some (ExtraBuffer (''TLS handshake failed, '' @ Error_text e))"
      by simp
  }
  {
    fix e2
    assume d: "dial_result env = Inl e2"
    from tcp_Ping_tls_failed(4) [OF assms e d]
    show "Extra (fst (tcp_Ping p ctx env)) = None" by simp
    from tcp_Ping_tls_failed(4) [OF assms e d]
    show "Error (fst (tcp_Ping p ctx env)) = Some e2" by simp
  }
qed

theorem tcp_tls_result_witness:
  "tcp_tls example_tls_probe
   \<and> Connected (fst (tcp_Ping example_tls_probe Background env_tls_ok))
   \<and> Extra (fst (tcp_Ping example_tls_probe Background env_tls_ok)) =
       Some (ExtraMeta \<lparr>Version = 3, DNSNames = [''example.com'', ''www.example.com''],
               ServerName = ''example.com'', NotBefore = 1700000000, NotAfter = 1800000000\<rparr>)
   \<and> Connected (fst (tcp_Ping example_tls_probe Background env_tls_incapable))
   \<and> Extra (fst (tcp_Ping example_tls_probe Background env_tls_incapable)) =
       Some (ExtraBuffer
         ''TLS handshake failed, tls: first record does not look like a TLS handshake'')
   \<and> \<not> Connected (fst (tcp_Ping example_tls_probe Background env_tls_handshake_stalls))
   \<and> Extra (fst (tcp_Ping example_tls_probe Background env_tls_handshake_stalls)) = None
   \<and> Error (fst (tcp_Ping example_tls_probe Background env_tls_handshake_stalls)) =
       Some (OpError ''dial'' ''tcp'' None (ErrorString ''lookup example.com: i/o timeout''))"
proof -
  have t: "tcp_tls example_tls_probe" by (simp add: example_tls_probe_def)
  from tcp_tls_result [OF t, of env_tls_ok Background]
    tcp_tls_result [OF t, of env_tls_incapable Background]
    tcp_tls_result [OF t, of env_tls_handshake_stalls Background] t
  show ?thesis
    by (simp add: env_tls_ok_def env_tls_incapable_def env_tls_handshake_stalls_def
        VersionTLS10_def)
qed

text \<open>
  Claim C2. The claim asks every network operation of an attempt to observe the context of
  the attempt. With TLS requested, the first operation of the TCP probe is
  \<^verbatim>\<open>tls.DialWithDialer\<close>, which is handed the dialer and the address and no context, while
  the plain dial that follows is handed the context with the attempt timeout. Against a
  peer that stalls the handshake for a minute, under a one-second deadline, the attempt
  lasts the minute.
\<close>

theorem tcp_tls_dial_ignores_context:
  "snd (tcp_Ping example_tls_probe (WithTimeout (WithCancel Background) 1000000000)
          env_tls_handshake_stalls) =
     [tls_DialWithDialer ''tcp'' ''example.com:443'',
      DialContext (WithClientTrace (WithTimeout
          (WithTimeout (WithCancel Background) 1000000000) 1000000000))
        ''tcp'' ''example.com:443'']
   \<and> map call_context (snd (tcp_Ping example_tls_probe
          (WithTimeout (WithCancel Background) 1000000000) env_tls_handshake_stalls)) =
     [None, Some (WithClientTrace (WithTimeout
          (WithTimeout (WithCancel Background) 1000000000) 1000000000))]
   \<and> Duration (fst (tcp_Ping example_tls_probe
          (WithTimeout (WithCancel Background) 1000000000) env_tls_handshake_stalls))
       = 60000000000"
  by (simp add: example_tls_probe_def env_tls_handshake_stalls_def tcp_Ping_def
      tcp_DialContext_def Let_def Stats_zero_def word_sless_alt)
     code_simp


lemma udp_exchange_read:
  assumes "udp_dial env = None" and "udp_write env = None"
  shows "Connected (udp_exchange p env st ip) = (snd (udp_read env) = None)"
    and "snd (udp_read env) = None \<Longrightarrow> Error (udp_exchange p env st ip) = None"
    and "snd (udp_read env) = Some e \<Longrightarrow>
           Error (udp_exchange p env st ip) = Some (Errorf ''read failed'' e)"
  using assms by (simp_all add: udp_exchange_def Let_def split: option.splits)

lemma udp_reaches_read_exchange:
  assumes "udp_reaches_read env"
  shows "\<exists>st ip. udp_Ping p env = udp_exchange p env st ip"
  using assms
  by (auto simp add: udp_reaches_read_def udp_Ping_def Let_def
      split: option.splits sum.splits list.splits)

lemma udp_exchange_content:
  "udp_exchange p (env\<lparr>udp_read := (d, snd (udp_read env))\<rparr>) st ip = udp_exchange p env st ip"
  by (simp add: udp_exchange_def Let_def split: option.splits)

lemma udp_Ping_content:
  "udp_Ping p (env\<lparr>udp_read := (d, snd (udp_read env))\<rparr>) = udp_Ping p env"
  unfolding udp_Ping_def Let_def udp_exchange_content
  by (simp split: option.splits sum.splits list.splits)

text \<open>
  Claim C7. For a UDP attempt that reaches the receive phase, the result is connected
  exactly when \<^verbatim>\<open>conn.Read\<close> returns without error, and then \<open>Error\<close> is empty; when the
  read fails, the result is not connected and \<open>Error\<close> is the read error wrapped as
  \<^verbatim>\<open>read failed\<close>; and the bytes of the datagram have no influence on the result.
\<close>

theorem udp_connected_iff_datagram_read:
  assumes "udp_reaches_read env"
  shows "Connected (udp_Ping p env) = (snd (udp_read env) = None)
       \<and> (snd (udp_read env) = None \<longrightarrow> Error (udp_Ping p env) = None)
       \<and> (\<forall>e. snd (udp_read env) = Some e \<longrightarrow>
              \<not> Connected (udp_Ping p env)
            \<and> Error (udp_Ping p env) = Some (Errorf ''read failed'' e))
       \<and> (\<forall>d. udp_Ping p (env\<lparr>udp_read := (d, snd (udp_read env))\<rparr>) = udp_Ping p env)"
proof -
  from udp_reaches_read_exchange [OF assms, of p] obtain st ip
    where run: "udp_Ping p env = udp_exchange p env st ip" by blast
  from assms have ok: "udp_dial env = None" "udp_write env = None"
    by (simp_all add: udp_reaches_read_def)
  show ?thesis
    unfolding run
    using udp_exchange_read [OF ok, where p = p and st = st and ip = ip]
    by (auto simp add: udp_Ping_content run [symmetric])
qed

theorem udp_connected_iff_datagram_read_witness:
  "udp_reaches_read env_udp_timeout \<and> udp_reaches_read env_udp_reply
   \<and> \<not> Connected (udp_Ping example_udp_probe env_udp_timeout)
   \<and> Error (udp_Ping example_udp_probe env_udp_timeout) =
       Some (Errorf ''read failed'' (OpError ''read'' ''udp'' (Some ''127.0.0.1:54321'')
               (ErrorString ''i/o timeout'')))
   \<and> Connected (udp_Ping example_udp_probe env_udp_reply)
   \<and> Error (udp_Ping example_udp_probe env_udp_reply) = None"
proof -
  have a: "udp_reaches_read env_udp_timeout"
    by (simp add: udp_reaches_read_def env_udp_timeout_def)
  have b: "udp_reaches_read env_udp_reply"
    by (simp add: udp_reaches_read_def env_udp_reply_def)
  from udp_connected_iff_datagram_read [OF a, of example_udp_probe]
    udp_connected_iff_datagram_read [OF b, of example_udp_probe] a b
  show ?thesis
    by (simp add: env_udp_timeout_def env_udp_reply_def)
qed

lemma http_return_fields:
  "Connected (http_return p t st) = Connected st"
  "Error (http_return p t st) = Error st"
  "Meta (http_return p t st) = Meta st"
  "Address (http_return p t st) = Address st"
  "DNSDuration (http_return p t st) = DNSDuration st"
  by (simp_all add: http_return_def)

text \<open>
  Claim C5. For an HTTP attempt whose response headers arrive (\<^verbatim>\<open>client.Do\<close> returns a
  response), the status code is recorded under \<^verbatim>\<open>status\<close> in \<open>Meta\<close>; if reading the body
  then fails, the result is not connected and \<open>Error\<close> is the wrapped read error; if it
  succeeds, the result is connected without error.
\<close>

theorem http_status_recorded_body_error_fails:
  assumes "NewRequest_error env = None" and "Do_result env = Inr resp"
  shows "map_of (Meta (http_Ping p env)) ''status'' = Some (Int_http (StatusCode resp))
       \<and> (\<forall>e. snd (body_copy env) = Some e \<longrightarrow>
              \<not> Connected (http_Ping p env)
            \<and> Error (http_Ping p env) = Some (Errorf ''read body failed'' e))
       \<and> (snd (body_copy env) = None \<longrightarrow>
              Connected (http_Ping p env) \<and> Error (http_Ping p env) = None)"
  using assms
  by (simp add: http_Ping_def Let_def http_return_fields Stats_zero_def update_conv'
      split: option.splits)

theorem http_status_recorded_body_error_fails_witness:
  "NewRequest_error env_http_body_breaks = None
   \<and> Do_result env_http_body_breaks = Inr \<lparr>StatusCode = 200\<rparr>
   \<and> map_of (Meta (http_Ping example_http_probe env_http_body_breaks)) ''status''
       = Some (Int_http 200)
   \<and> \<not> Connected (http_Ping example_http_probe env_http_body_breaks)
   \<and> Error (http_Ping example_http_probe env_http_body_breaks)
       = Some (Errorf ''read body failed'' (ErrorString ''unexpected EOF''))"
proof -
  have a: "NewRequest_error env_http_body_breaks = None"
    by (simp add: env_http_body_breaks_def)
  have b: "Do_result env_http_body_breaks = Inr \<lparr>StatusCode = 200\<rparr>"
    by (simp add: env_http_body_breaks_def)
  have c: "snd (body_copy env_http_body_breaks) = Some (ErrorString ''unexpected EOF'')"
    by (simp add: env_http_body_breaks_def)
  from http_status_recorded_body_error_fails [OF a b, of example_http_probe] a b c
  show ?thesis by simp
qed

text \<open>
  Claim C10. For an HTTP probe built with tracing disabled, every attempt returns
  \<open>Address\<close> empty and \<open>DNSDuration\<close> zero, whatever the transport did: both are copied
  from a trace whose callbacks were never installed.
\<close>

theorem http_untraced_address_and_dns_empty:
  assumes "\<not> http_trace p"
  shows "Address (http_Ping p env) = [] \<and> DNSDuration (http_Ping p env) = 0"
  using assms
  by (simp add: http_Ping_def Let_def http_return_fields Stats_zero_def Trace_zero_def
      split: option.splits sum.splits)

theorem http_untraced_address_and_dns_empty_witness:
  "\<not> http_trace example_http_probe
   \<and> Do_events env_http_body_breaks =
       [DNSStart 1000, DNSDone 3000, ConnectStart ''tcp'' ''93.184.216.34:80'' 3100,
        ConnectDone 5000, WroteRequest 5200, GotFirstResponseByte 9000]
   \<and> Address (http_Ping example_http_probe env_http_body_breaks) = []
   \<and> DNSDuration (http_Ping example_http_probe env_http_body_breaks) = 0
   \<and> Address (http_Ping (example_http_probe\<lparr>http_trace := True\<rparr>) env_http_body_breaks)
       = ''93.184.216.34''
   \<and> DNSDuration (http_Ping (example_http_probe\<lparr>http_trace := True\<rparr>) env_http_body_breaks)
       = 2000"
proof -
  have a: "\<not> http_trace example_http_probe"
    by (simp add: example_http_probe_def)
  have b: "Address (http_Ping (example_http_probe\<lparr>http_trace := True\<rparr>) env_http_body_breaks)
       = ''93.184.216.34''"
    by (simp add: http_Ping_def Let_def http_return_fields Stats_zero_def Trace_zero_def
        env_http_body_breaks_def)
  have c: "DNSDuration (http_Ping (example_http_probe\<lparr>http_trace := True\<rparr>) env_http_body_breaks)
       = 2000"
    by (simp add: http_Ping_def Let_def http_return_fields Stats_zero_def Trace_zero_def
        env_http_body_breaks_def)
  from http_untraced_address_and_dns_empty [OF a, of env_http_body_breaks] a b c
  show ?thesis by (simp add: env_http_body_breaks_def)
qed

end
